theory Spec2Isabelle
  imports Main "HOL-Library.Word"
begin

section \<open>Strings, HTTP outcomes and provider data\<close>

text \<open>
  A JavaScript string is a sequence of UTF-16 code units, and \<open>s.length\<close> counts code
  units. \<open>js\<close> turns an ASCII literal into that representation.
\<close>

type_synonym jsstring = "16 word list"

definition js :: "string \<Rightarrow> jsstring" where
  "js cs = map of_char cs"

text \<open>In a condition (\<open>if (x)\<close>, \<open>x || y\<close>) a string counts as true unless it is empty.\<close>

definition truthy :: "jsstring \<Rightarrow> bool" where
  "truthy s = (s \<noteq> [])"

text \<open>
  An optional string property (\<open>city?: string\<close>) is \<open>None\<close> when the property is
  missing; \<open>a || b\<close> yields \<open>a\<close> when it is present and truthy, and \<open>b\<close> otherwise.
\<close>

definition or_else :: "jsstring option \<Rightarrow> jsstring \<Rightarrow> jsstring" where
  "or_else a b = (case a of Some x \<Rightarrow> if truthy x then x else b | None \<Rightarrow> b)"

text \<open>\<open>s.split(c)\<close> for a separator \<open>c\<close> of one code unit; the result is never empty.\<close>

fun split_js :: "'a \<Rightarrow> 'a list \<Rightarrow> 'a list list" where
  "split_js c [] = [[]]"
| "split_js c (x # xs) =
     (if x = c then [] # split_js c xs
      else (case split_js c xs of
              [] \<Rightarrow> [[x]]
            | y # ys \<Rightarrow> (x # y) # ys))"

definition comma :: "16 word" where
  "comma = 0x2C"

text \<open>\<open>parts.join(sep)\<close>.\<close>

fun join_js :: "'a list \<Rightarrow> 'a list list \<Rightarrow> 'a list" where
  "join_js sep [] = []"
| "join_js sep [p] = p"
| "join_js sep (p # q # ps) = p @ sep @ join_js sep (q # ps)"

text \<open>
  The outcome of \<open>fetch(url)\<close> followed by \<open>response.json()\<close>: the transport rejects, or
  a response arrives with its \<open>ok\<close> flag and a body that parses (\<open>Some\<close>) or not.
\<close>

datatype 'a http = Rejected | Response bool "'a option"

datatype failure = NetworkError | BadStatus | MalformedBody

text \<open>
  \<open>searchLocations\<close>, \<open>reverseGeocode\<close> and \<open>getWeather\<close> of the api modules share one
  shape: await the request, throw unless \<open>response.ok\<close>, return \<open>response.json()\<close>. The
  outcome of the request is their argument here. (\<open>getWeather\<close> issues its request
  through a function \<open>a\<close> that its file does not define; whatever \<open>a\<close> does is part of
  that outcome, a throw counting as a rejection.)
\<close>

definition checked_json :: "'a http \<Rightarrow> failure + 'a" where
  "checked_json h =
     (case h of
        Rejected \<Rightarrow> Inl NetworkError
      | Response ok body \<Rightarrow>
          if \<not> ok then Inl BadStatus
          else (case body of None \<Rightarrow> Inl MalformedBody | Some v \<Rightarrow> Inr v))"

definition searchLocations :: "'a http \<Rightarrow> failure + 'a" where
  "searchLocations h = checked_json h"

definition reverseGeocode :: "'a http \<Rightarrow> failure + 'a" where
  "reverseGeocode h = checked_json h"

definition getWeather :: "'a http \<Rightarrow> failure + 'a" where
  "getWeather h = checked_json h"

text \<open>
  The draft component \<open>WeatherAppWithSuggestions\<close> calls \<open>fetch\<close> and \<open>res.json()\<close>
  directly and never looks at \<open>res.ok\<close>.
\<close>

definition unchecked_json :: "'a http \<Rightarrow> failure + 'a" where
  "unchecked_json h =
     (case h of
        Rejected \<Rightarrow> Inl NetworkError
      | Response ok body \<Rightarrow>
          (case body of None \<Rightarrow> Inl MalformedBody | Some v \<Rightarrow> Inr v))"

record place =
  display_name :: jsstring
  lat :: jsstring
  lon :: jsstring

record LocationSuggestion = place +
  place_id :: jsstring

record address =
  city :: "jsstring option"
  town :: "jsstring option"
  village :: "jsstring option"
  state :: "jsstring option"
  country :: "jsstring option"

record Location = place +
  address :: address

text \<open>The reverse lookup returns \<open>any\<close>; the code reads \<open>display_name\<close> and \<open>address?\<close>.\<close>

record Reverse = place +
  address_opt :: "address option"

record 'n current_weather =
  temperature_2m :: 'n
  apparent_temperature :: 'n
  relative_humidity_2m :: 'n
  wind_speed_10m :: 'n
  weather_code :: int

record 'n daily_weather =
  time :: "jsstring list"
  temperature_2m_max :: "'n list"
  temperature_2m_min :: "'n list"
  daily_weather_code :: "int list"

record 'n WeatherData =
  current :: "'n current_weather"
  daily :: "'n daily_weather"

section \<open>Weather-code classifier\<close>

definition emoji_map :: "(int \<times> jsstring) list" where
  "emoji_map =
     [(0, [0x2600, 0xFE0F]), (1, [0xD83C, 0xDF24, 0xFE0F]), (2, [0x26C5]), (3, [0x2601, 0xFE0F]),
      (45, [0xD83C, 0xDF2B, 0xFE0F]), (48, [0xD83C, 0xDF2B, 0xFE0F]),
      (51, [0xD83C, 0xDF26, 0xFE0F]), (53, [0xD83C, 0xDF26, 0xFE0F]), (55, [0xD83C, 0xDF26, 0xFE0F]),
      (61, [0xD83C, 0xDF27, 0xFE0F]), (63, [0xD83C, 0xDF27, 0xFE0F]), (65, [0xD83C, 0xDF27, 0xFE0F]),
      (71, [0x2744, 0xFE0F]), (73, [0x2744, 0xFE0F]), (75, [0x2744, 0xFE0F]),
      (95, [0x26C8, 0xFE0F]), (96, [0x26C8, 0xFE0F]), (99, [0x26C8, 0xFE0F])]"

text \<open>\<open>getWeatherEmoji\<close> of \<open>WeatherPage\<close>: \<open>map[code] || default\<close>.\<close>

definition getWeatherEmoji :: "int \<Rightarrow> jsstring" where
  "getWeatherEmoji code = or_else (map_of emoji_map code) [0xD83C, 0xDF24, 0xFE0F]"

definition icon_map :: "(int \<times> jsstring) list" where
  "icon_map =
     [(0, [0x2600, 0xFE0F]), (1, [0xD83C, 0xDF24, 0xFE0F]), (2, [0x26C5]), (3, [0x2601, 0xFE0F]),
      (45, [0xD83C, 0xDF2B]), (48, [0xD83C, 0xDF2B]),
      (51, [0xD83C, 0xDF26]), (53, [0xD83C, 0xDF26]), (55, [0xD83C, 0xDF27]),
      (61, [0xD83C, 0xDF27]), (63, [0xD83C, 0xDF27]), (65, [0xD83C, 0xDF27]),
      (71, [0x2744, 0xFE0F]), (73, [0x2744, 0xFE0F]), (75, [0x2744, 0xFE0F]),
      (95, [0x26C8]), (96, [0x26C8]), (99, [0x26C8])]"

text \<open>\<open>getWeatherIcon\<close> of \<open>WeatherAppWithSuggestions\<close>.\<close>

definition getWeatherIcon :: "int \<Rightarrow> jsstring" where
  "getWeatherIcon code = or_else (map_of icon_map code) [0xD83C, 0xDF24, 0xFE0F]"

text \<open>The keys of both lookup tables.\<close>

definition known_codes :: "int set" where
  "known_codes = {0, 1, 2, 3, 45, 48, 51, 53, 55, 61, 63, 65, 71, 73, 75, 95, 96, 99}"



section \<open>The component \<open>WeatherPage\<close>\<close>

text \<open>
  The \<open>useState\<close> cells and the \<open>debounceRef\<close> of \<open>WeatherPage\<close>. A pending timeout is
  the milliseconds left and the query text its closure captured; \<open>None\<close> when no timeout
  is pending. Three more fields record the asynchronous calls awaiting their result
  (oldest first, with what each closure captured), and \<open>invoked\<close> logs every text
  \<open>searchLocations\<close> was called with.
\<close>

record 'n page =
  query :: jsstring
  suggestions :: "LocationSuggestion list"
  showDropdown :: bool
  loading :: bool
  searching :: bool
  weather :: "'n WeatherData option"
  selectedCity :: jsstring
  error :: jsstring
  geoLoading :: bool
  debounceRef :: "(nat \<times> jsstring) option"
  searches :: "jsstring list"
  invoked :: "jsstring list"
  fetches :: "(jsstring \<times> jsstring \<times> jsstring) list"
  lookups :: "(jsstring \<times> jsstring) list"

definition init_page :: "'n page" where
  "init_page =
     \<lparr>query = [], suggestions = [], showDropdown = False, loading = False, searching = False,
      weather = None, selectedCity = [], error = [], geoLoading = False, debounceRef = None,
      searches = [], invoked = [], fetches = [], lookups = []\<rparr>"

definition remove_nth :: "nat \<Rightarrow> 'a list \<Rightarrow> 'a list" where
  "remove_nth i xs = take i xs @ drop (Suc i) xs"

text \<open>
  The body of the search effect (\<open>useEffect(..., [query])\<close>), run with the current query:
  a short query clears the list and returns before the timer is touched; otherwise the
  pending timeout is cleared and a new one set for 300 ms.
\<close>

definition search_effect :: "'n page \<Rightarrow> 'n page" where
  "search_effect s =
     (if length (query s) < 2
      then s\<lparr>suggestions := [], showDropdown := False\<rparr>
      else s\<lparr>debounceRef := Some (300, query s)\<rparr>)"

text \<open>\<open>setQuery\<close>: React re-runs the effect only when the value of \<open>query\<close> changed.\<close>

definition setQuery :: "jsstring \<Rightarrow> 'n page \<Rightarrow> 'n page" where
  "setQuery q s = (if q = query s then s else search_effect (s\<lparr>query := q\<rparr>))"

text \<open>The timeout callback up to its \<open>await searchLocations(query)\<close>.\<close>

definition timeout_callback :: "jsstring \<Rightarrow> 'n page \<Rightarrow> 'n page" where
  "timeout_callback q s =
     s\<lparr>searching := True, error := [], searches := searches s @ [q],
       invoked := invoked s @ [q]\<rparr>"

text \<open>\<open>d\<close> milliseconds pass: a timeout that is due runs its callback.\<close>

definition elapse :: "nat \<Rightarrow> 'n page \<Rightarrow> 'n page" where
  "elapse d s =
     (case debounceRef s of
        None \<Rightarrow> s
      | Some (r, q) \<Rightarrow>
          if r \<le> d then timeout_callback q (s\<lparr>debounceRef := None\<rparr>)
          else s\<lparr>debounceRef := Some (r - d, q)\<rparr>)"

text \<open>
  The rest of the timeout callback, run when the \<open>i\<close>-th pending \<open>searchLocations\<close> call
  settles with outcome \<open>h\<close>: \<open>try\<close>, \<open>catch\<close> and \<open>finally\<close>.
\<close>

definition search_settles :: "nat \<Rightarrow> LocationSuggestion list http \<Rightarrow> 'n page \<Rightarrow> 'n page" where
  "search_settles i h s =
     (if i < length (searches s) then
        (case searchLocations h of
           Inr results \<Rightarrow>
             s\<lparr>suggestions := results, showDropdown := True, searching := False,
               searches := remove_nth i (searches s)\<rparr>
         | Inl e \<Rightarrow>
             s\<lparr>error := js ''Location search failed'', suggestions := [], searching := False,
               searches := remove_nth i (searches s)\<rparr>)
      else s)"

text \<open>\<open>fetchWeatherData\<close> up to its \<open>await getWeather(...)\<close>.\<close>

definition fetchWeatherData :: "jsstring \<Rightarrow> jsstring \<Rightarrow> jsstring \<Rightarrow> 'n page \<Rightarrow> 'n page" where
  "fetchWeatherData la lo cityName s =
     s\<lparr>loading := True, error := [], fetches := fetches s @ [(la, lo, cityName)]\<rparr>"

text \<open>The rest of \<open>fetchWeatherData\<close>, run when the \<open>i\<close>-th pending \<open>getWeather\<close> call settles.\<close>

definition weather_settles :: "nat \<Rightarrow> 'n WeatherData http \<Rightarrow> 'n page \<Rightarrow> 'n page" where
  "weather_settles i h s =
     (if i < length (fetches s) then
        (case getWeather h of
           Inr data \<Rightarrow>
             s\<lparr>weather := Some data, selectedCity := snd (snd (fetches s ! i)),
               showDropdown := False, loading := False,
               fetches := remove_nth i (fetches s)\<rparr>
         | Inl e \<Rightarrow>
             s\<lparr>error := js ''Failed to load weather data'', loading := False,
               fetches := remove_nth i (fetches s)\<rparr>)
      else s)"

definition handleSelect :: "LocationSuggestion \<Rightarrow> 'n page \<Rightarrow> 'n page" where
  "handleSelect loc s =
     fetchWeatherData (lat loc) (lon loc) (display_name loc)
       (setQuery (hd (split_js comma (display_name loc))) s)"

text \<open>\<open>a || b\<close> on two optional strings.\<close>

definition or_js :: "jsstring option \<Rightarrow> jsstring option \<Rightarrow> jsstring option" where
  "or_js a b = (case a of Some x \<Rightarrow> if truthy x then a else b | None \<Rightarrow> b)"

text \<open>
  The name \<open>handleUseMyLocation\<close> puts into the input:
  \<open>data.address?.city || data.address?.town || data.address?.village || 'Your Location'\<close>.
\<close>

definition location_name :: "Reverse \<Rightarrow> jsstring" where
  "location_name data =
     or_else
       (or_js (or_js (Option.bind (address_opt data) city) (Option.bind (address_opt data) town))
          (Option.bind (address_opt data) village))
       (js ''Your Location'')"

text \<open>
  \<open>handleUseMyLocation\<close>, in the steps the browser takes it through: the click (with or
  without \<open>navigator.geolocation\<close>), the position callback, which calls \<open>reverseGeocode\<close>,
  the rest of that callback once the lookup settles, and the error callback. A coordinate
  is carried as the text \<open>toString()\<close> gives for it.
\<close>

definition handleUseMyLocation :: "bool \<Rightarrow> 'n page \<Rightarrow> 'n page" where
  "handleUseMyLocation supported s =
     (if \<not> supported then s\<lparr>error := js ''Geolocation not supported''\<rparr>
      else s\<lparr>geoLoading := True\<rparr>)"

definition position_success :: "jsstring \<Rightarrow> jsstring \<Rightarrow> 'n page \<Rightarrow> 'n page" where
  "position_success latitude longitude s = s\<lparr>lookups := lookups s @ [(latitude, longitude)]\<rparr>"

definition reverse_settles :: "nat \<Rightarrow> Reverse http \<Rightarrow> 'n page \<Rightarrow> 'n page" where
  "reverse_settles i h s =
     (if i < length (lookups s) then
        (case reverseGeocode h of
           Inr data \<Rightarrow>
             (fetchWeatherData (fst (lookups s ! i)) (snd (lookups s ! i)) (display_name data)
                (setQuery (location_name data) (s\<lparr>lookups := remove_nth i (lookups s)\<rparr>)))
             \<lparr>geoLoading := False\<rparr>
         | Inl e \<Rightarrow>
             s\<lparr>error := js ''Could not detect city name'', geoLoading := False,
               lookups := remove_nth i (lookups s)\<rparr>)
      else s)"

definition position_error :: "'n page \<Rightarrow> 'n page" where
  "position_error s = s\<lparr>error := js ''Location access denied'', geoLoading := False\<rparr>"

text \<open>What the component renders, guard by guard.\<close>

definition dropdown :: "'n page \<Rightarrow> LocationSuggestion list" where
  "dropdown s = (if showDropdown s \<and> length (suggestions s) > 0 then suggestions s else [])"

definition error_banner :: "'n page \<Rightarrow> jsstring option" where
  "error_banner s = (if truthy (error s) then Some (error s) else None)"

definition loading_indicator :: "'n page \<Rightarrow> bool" where
  "loading_indicator s = loading s"

definition weather_section :: "'n page \<Rightarrow> (jsstring \<times> jsstring \<times> 'n WeatherData) option" where
  "weather_section s =
     (case weather s of
        Some w \<Rightarrow>
          if \<not> loading s then Some (selectedCity s, getWeatherEmoji (weather_code (current w)), w)
          else None
      | None \<Rightarrow> None)"

text \<open>
  A run of query updates: before each one, the given number of milliseconds passes since
  the previous event.
\<close>

fun type_burst :: "(nat \<times> jsstring) list \<Rightarrow> 'n page \<Rightarrow> 'n page" where
  "type_burst [] s = s"
| "type_burst ((gap, text) # rest) s = type_burst rest (setQuery text (elapse gap s))"

section \<open>The draft component \<open>WeatherAppWithSuggestions\<close>\<close>

text \<open>
  Its \<open>useState\<close> cells and \<open>debounceTimer\<close>, the calls awaiting their result, the log
  of autocomplete requests, and what went to \<open>console.error\<close> and to \<open>alert\<close>. The
  weather payload is never inspected by the functions below.
\<close>

record 'w app =
  a_query :: jsstring
  a_suggestions :: "Location list"
  a_selectedLocation :: "Location option"
  a_weather :: "'w option"
  a_loading :: bool
  a_showSuggestions :: bool
  a_debounceTimer :: "(nat \<times> jsstring) option"
  a_requests :: "jsstring list"
  a_invoked :: "jsstring list"
  a_fetches :: "Location list"
  a_console :: "jsstring list"
  a_alerts :: "jsstring list"

definition init_app :: "'w app" where
  "init_app =
     \<lparr>a_query = [], a_suggestions = [], a_selectedLocation = None, a_weather = None,
      a_loading = False, a_showSuggestions = False, a_debounceTimer = None, a_requests = [],
      a_invoked = [], a_fetches = [], a_console = [], a_alerts = []\<rparr>"

definition a_search_effect :: "'w app \<Rightarrow> 'w app" where
  "a_search_effect s =
     (if length (a_query s) < 2
      then s\<lparr>a_suggestions := [], a_showSuggestions := False\<rparr>
      else s\<lparr>a_debounceTimer := Some (300, a_query s)\<rparr>)"

definition a_setQuery :: "jsstring \<Rightarrow> 'w app \<Rightarrow> 'w app" where
  "a_setQuery q s = (if q = a_query s then s else a_search_effect (s\<lparr>a_query := q\<rparr>))"

text \<open>The timeout callback up to its \<open>await fetch(...)\<close>.\<close>

definition a_timeout_callback :: "jsstring \<Rightarrow> 'w app \<Rightarrow> 'w app" where
  "a_timeout_callback q s =
     s\<lparr>a_requests := a_requests s @ [q], a_invoked := a_invoked s @ [q]\<rparr>"

definition a_elapse :: "nat \<Rightarrow> 'w app \<Rightarrow> 'w app" where
  "a_elapse d s =
     (case a_debounceTimer s of
        None \<Rightarrow> s
      | Some (r, q) \<Rightarrow>
          if r \<le> d then a_timeout_callback q (s\<lparr>a_debounceTimer := None\<rparr>)
          else s\<lparr>a_debounceTimer := Some (r - d, q)\<rparr>)"

text \<open>The rest of the callback: the \<open>catch\<close> only writes to the console.\<close>

definition a_search_settles :: "nat \<Rightarrow> Location list http \<Rightarrow> 'w app \<Rightarrow> 'w app" where
  "a_search_settles i h s =
     (if i < length (a_requests s) then
        (case unchecked_json h of
           Inr data \<Rightarrow>
             s\<lparr>a_suggestions := data, a_showSuggestions := True,
               a_requests := remove_nth i (a_requests s)\<rparr>
         | Inl e \<Rightarrow>
             s\<lparr>a_console := a_console s @ [js ''Autocomplete failed''],
               a_requests := remove_nth i (a_requests s)\<rparr>)
      else s)"

text \<open>The test \<open>if (a.city)\<close> on an optional string: present and not empty.\<close>

definition present :: "jsstring option \<Rightarrow> bool" where
  "present a = (case a of Some x \<Rightarrow> truthy x | None \<Rightarrow> False)"

text \<open>\<open>formatDisplayName\<close>: city, else town, else village; then state; then country.\<close>

definition formatDisplayName :: "Location \<Rightarrow> jsstring" where
  "formatDisplayName loc =
     (let a = address loc;
          parts = [];
          parts = (if present (city a) then parts @ [the (city a)]
                   else if present (town a) then parts @ [the (town a)]
                   else if present (village a) then parts @ [the (village a)]
                   else parts);
          parts = (if present (state a) then parts @ [the (state a)] else parts);
          parts = (if present (country a) then parts @ [the (country a)] else parts)
      in join_js (js '', '') parts)"

text \<open>\<open>fetchWeather\<close> (the click on a suggestion) up to its \<open>await fetch(...)\<close>.\<close>

definition fetchWeather :: "Location \<Rightarrow> 'w app \<Rightarrow> 'w app" where
  "fetchWeather loc s = s\<lparr>a_loading := True, a_fetches := a_fetches s @ [loc]\<rparr>"

text \<open>The rest of \<open>fetchWeather\<close>, run when the \<open>i\<close>-th pending forecast request settles.\<close>

definition a_weather_settles :: "nat \<Rightarrow> 'w http \<Rightarrow> 'w app \<Rightarrow> 'w app" where
  "a_weather_settles i h s =
     (if i < length (a_fetches s) then
        (case unchecked_json h of
           Inr data \<Rightarrow>
             (a_setQuery (formatDisplayName (a_fetches s ! i))
                (s\<lparr>a_weather := Some data, a_selectedLocation := Some (a_fetches s ! i),
                   a_showSuggestions := False, a_fetches := remove_nth i (a_fetches s)\<rparr>))
             \<lparr>a_loading := False\<rparr>
         | Inl e \<Rightarrow>
             s\<lparr>a_alerts := a_alerts s @ [js ''Failed to load weather''], a_loading := False,
               a_fetches := remove_nth i (a_fetches s)\<rparr>)
      else s)"

fun a_type_burst :: "(nat \<times> jsstring) list \<Rightarrow> 'w app \<Rightarrow> 'w app" where
  "a_type_burst [] s = s"
| "a_type_burst ((gap, text) # rest) s = a_type_burst rest (a_setQuery text (a_elapse gap s))"

section \<open>Events without user input\<close>






section \<open>Sample data and runs\<close>

definition sample_weather :: "int WeatherData" where
  "sample_weather =
     \<lparr>current = \<lparr>temperature_2m = 18, apparent_temperature = 17, relative_humidity_2m = 60,
                  wind_speed_10m = 12, weather_code = 3\<rparr>,
      daily = \<lparr>time = [js ''2025-11-27''], temperature_2m_max = [19], temperature_2m_min = [9],
                daily_weather_code = [3]\<rparr>\<rparr>"

definition berlin :: LocationSuggestion where
  "berlin = \<lparr>display_name = js ''Berlin, Germany'', lat = js ''52.52'', lon = js ''13.405'',
             place_id = js ''1''\<rparr>"

definition london :: LocationSuggestion where
  "london = \<lparr>display_name = js ''London, England'', lat = js ''51.5'', lon = js ''-0.12'',
             place_id = js ''2''\<rparr>"

definition long_eaton :: LocationSuggestion where
  "long_eaton = \<lparr>display_name = js ''Long Eaton, England'', lat = js ''52.9'',
                 lon = js ''-1.27'', place_id = js ''3''\<rparr>"

text \<open>
  "Lon" is typed and its request goes out after 300 ms; then "London" is typed and its
  request goes out. Both requests are pending, the one for "Lon" first.
\<close>

definition two_pending :: "int page" where
  "two_pending =
     elapse 300 (setQuery (js ''London'') (elapse 300 (setQuery (js ''Lon'') init_page)))"

text \<open>The response for "London" arrives first, the one for "Lon" after it.\<close>

definition late_first :: "int page" where
  "late_first =
     search_settles 0 (Response True (Some [long_eaton]))
       (search_settles 1 (Response True (Some [london])) two_pending)"

text \<open>Berlin is selected and its forecast arrives; then London is selected.\<close>

definition berlin_shown :: "int page" where
  "berlin_shown =
     weather_settles 0 (Response True (Some sample_weather)) (handleSelect berlin init_page)"

definition london_loading :: "int page" where
  "london_loading = handleSelect london berlin_shown"

text \<open>
  The suggestion "Paris, Ile-de-France, France" whose I carries a circumflex (code unit
  0xCE).
\<close>

definition paris :: Location where
  "paris =
     \<lparr>display_name = js ''Paris, '' @ [0xCE] @ js ''le-de-France, France'', lat = js ''48.85'',
      lon = js ''2.35'',
      address = \<lparr>city = Some (js ''Paris''), town = None, village = None,
                  state = Some ([0xCE] @ js ''le-de-France''), country = Some (js ''France'')\<rparr>\<rparr>"

definition bare_paris :: Location where
  "bare_paris =
     \<lparr>display_name = js ''Paris, France'', lat = js ''48.85'', lon = js ''2.35'',
      address = \<lparr>city = None, town = None, village = None, state = None, country = None\<rparr>\<rparr>"

text \<open>In the draft: "Par" is typed, its request goes out and is answered with Paris.\<close>

definition a_listed :: "int WeatherData app" where
  "a_listed =
     a_search_settles 0 (Response True (Some [paris]))
       (a_elapse 300 (a_setQuery (js ''Par'') init_app))"

text \<open>Then "Pari" is typed and the refreshing request goes out.\<close>

definition a_refreshing :: "int WeatherData app" where
  "a_refreshing = a_elapse 300 (a_setQuery (js ''Pari'') a_listed)"

definition a_two_pending :: "int WeatherData app" where
  "a_two_pending =
     a_elapse 300 (a_setQuery (js ''London'') (a_elapse 300 (a_setQuery (js ''Lon'') init_app)))"

definition springfield :: Reverse where
  "springfield =
     \<lparr>display_name = js ''Springfield, Illinois, USA'', lat = js ''39.8'', lon = js ''-89.6'',
      address_opt = Some \<lparr>city = None, town = None, village = None,
                           state = Some (js ''Illinois''), country = Some (js ''USA'')\<rparr>\<rparr>"

definition mitte :: Reverse where
  "mitte =
     \<lparr>display_name = js ''Mitte, Berlin, Germany'', lat = js ''52.52'', lon = js ''13.405'',
      address_opt = Some \<lparr>city = Some (js ''Berlin''), town = Some (js ''Mitte''), village = None,
                           state = None, country = Some (js ''Germany'')\<rparr>\<rparr>"

text \<open>"Use My Location" is clicked and the browser reports a position.\<close>

definition locating :: "int page" where
  "locating = position_success (js ''39.8'') (js ''-89.6'') (handleUseMyLocation True init_page)"

definition berli_burst :: "(nat \<times> jsstring) list" where
  "berli_burst = [(0, js ''Be''), (50, js ''Ber''), (50, js ''Berl''), (50, js ''Berli'')]"

text \<open>"Berl" typed key by key, 50 ms apart.\<close>

definition berl_keys :: "(nat \<times> jsstring) list" where
  "berl_keys = [(0, js ''B''), (50, js ''Be''), (50, js ''Ber''), (50, js ''Berl'')]"

text \<open>"Lo" is typed and, 50 ms later, its last character is deleted.\<close>

definition lo_then_l :: "(nat \<times> jsstring) list" where
  "lo_then_l = [(0, js ''Lo''), (50, js ''L'')]"

section \<open>Properties\<close>

lemmas page_defs = init_page_def elapse_def setQuery_def search_effect_def timeout_callback_def
  search_settles_def fetchWeatherData_def weather_settles_def handleSelect_def remove_nth_def
  searchLocations_def getWeather_def reverseGeocode_def checked_json_def

lemmas app_defs = init_app_def a_elapse_def a_setQuery_def a_search_effect_def
  a_timeout_callback_def a_search_settles_def fetchWeather_def a_weather_settles_def
  remove_nth_def unchecked_json_def



subsection \<open>The debounce timer\<close>

lemma elapse_early:
  "debounceRef s = Some (r, q) \<Longrightarrow> d < r \<Longrightarrow>
     debounceRef (elapse d s) = Some (r - d, q) \<and> invoked (elapse d s) = invoked s
     \<and> query (elapse d s) = query s"
  by (simp add: elapse_def)

lemma elapse_due:
  "debounceRef s = Some (r, q) \<Longrightarrow> r \<le> d \<Longrightarrow>
     debounceRef (elapse d s) = None \<and> invoked (elapse d s) = invoked s @ [q]"
  by (simp add: elapse_def timeout_callback_def)

lemma elapse_query: "query (elapse d s) = query s"
  by (simp add: elapse_def timeout_callback_def split: option.splits)

lemma setQuery_long:
  "2 \<le> length q \<Longrightarrow> q \<noteq> query s \<Longrightarrow>
     debounceRef (setQuery q s) = Some (300, q) \<and> invoked (setQuery q s) = invoked s
     \<and> query (setQuery q s) = q"
  by (simp add: setQuery_def search_effect_def)

text \<open>
  While updates of two or more characters keep arriving less than 300 ms apart, the
  pending timeout is always the one of the latest update and nothing is invoked.
\<close>

lemma type_burst_pending:
  "debounceRef s = Some (300, query s) \<Longrightarrow>
   \<forall>(gap, text) \<in> set b. gap < 300 \<and> 2 \<le> length text \<Longrightarrow>
   distinct_adj (query s # map snd b) \<Longrightarrow>
     debounceRef (type_burst b s) = Some (300, last (query s # map snd b))
     \<and> invoked (type_burst b s) = invoked s"
proof (induction b arbitrary: s)
  case Nil
  then show ?case by simp
next
  case (Cons u b)
  obtain g t where u: "u = (g, t)" by (cases u)
  from Cons.prems u have g: "g < 300" and len: "2 \<le> length t"
    and new: "t \<noteq> query s" by auto
  let ?s1 = "setQuery t (elapse g s)"
  from elapse_early [OF Cons.prems(1) g]
  have e: "invoked (elapse g s) = invoked s" "query (elapse g s) = query s" by simp_all
  from setQuery_long [OF len, of "elapse g s"] new e
  have s1: "debounceRef ?s1 = Some (300, t)" "invoked ?s1 = invoked s" "query ?s1 = t"
    by simp_all
  have "debounceRef (type_burst b ?s1) = Some (300, last (query ?s1 # map snd b))
     \<and> invoked (type_burst b ?s1) = invoked ?s1"
  proof (rule Cons.IH)
    show "debounceRef ?s1 = Some (300, query ?s1)" using s1 by simp
    show "\<forall>(gap, text) \<in> set b. gap < 300 \<and> 2 \<le> length text" using Cons.prems(2) by simp
    show "distinct_adj (query ?s1 # map snd b)" using Cons.prems(3) s1 u by simp
  qed
  with s1 u show ?case by simp
qed

lemma page_burst:
  assumes "b \<noteq> []" and "\<forall>(gap, text) \<in> set (tl b). gap < 300"
    and "\<forall>(gap, text) \<in> set b. 2 \<le> length text"
    and "distinct_adj (query s # map snd b)"
  shows "debounceRef (type_burst b s) = Some (300, snd (last b))
     \<and> invoked (type_burst b s) = invoked (elapse (fst (hd b)) s)"
proof -
  from assms(1) obtain g t rest where b: "b = (g, t) # rest" by (cases b) auto
  let ?s1 = "setQuery t (elapse g s)"
  from assms b have len: "2 \<le> length t" and new: "t \<noteq> query (elapse g s)"
    by (auto simp: elapse_query)
  from setQuery_long [OF len new]
  have s1: "debounceRef ?s1 = Some (300, t)" "invoked ?s1 = invoked (elapse g s)"
    "query ?s1 = t" by simp_all
  have p: "debounceRef (type_burst rest ?s1) = Some (300, last (query ?s1 # map snd rest))
     \<and> invoked (type_burst rest ?s1) = invoked ?s1"
  proof (rule type_burst_pending)
    show "debounceRef ?s1 = Some (300, query ?s1)" using s1 by simp
    show "\<forall>(gap, text) \<in> set rest. gap < 300 \<and> 2 \<le> length text" using assms b by auto
    show "distinct_adj (query ?s1 # map snd rest)" using assms b s1 by simp
  qed
  have "last (query ?s1 # map snd rest) = snd (last b)"
    using b s1 by (simp add: last_map)
  with p b s1 show ?thesis by simp
qed

text \<open>The same for the draft component.\<close>

lemma a_elapse_early:
  "a_debounceTimer s = Some (r, q) \<Longrightarrow> d < r \<Longrightarrow>
     a_debounceTimer (a_elapse d s) = Some (r - d, q) \<and> a_invoked (a_elapse d s) = a_invoked s
     \<and> a_query (a_elapse d s) = a_query s"
  by (simp add: a_elapse_def)

lemma a_elapse_due:
  "a_debounceTimer s = Some (r, q) \<Longrightarrow> r \<le> d \<Longrightarrow>
     a_debounceTimer (a_elapse d s) = None \<and> a_invoked (a_elapse d s) = a_invoked s @ [q]"
  by (simp add: a_elapse_def a_timeout_callback_def)

lemma a_elapse_query: "a_query (a_elapse d s) = a_query s"
  by (simp add: a_elapse_def a_timeout_callback_def split: option.splits)

lemma a_setQuery_long:
  "2 \<le> length q \<Longrightarrow> q \<noteq> a_query s \<Longrightarrow>
     a_debounceTimer (a_setQuery q s) = Some (300, q) \<and> a_invoked (a_setQuery q s) = a_invoked s
     \<and> a_query (a_setQuery q s) = q"
  by (simp add: a_setQuery_def a_search_effect_def)

lemma a_type_burst_pending:
  "a_debounceTimer s = Some (300, a_query s) \<Longrightarrow>
   \<forall>(gap, text) \<in> set b. gap < 300 \<and> 2 \<le> length text \<Longrightarrow>
   distinct_adj (a_query s # map snd b) \<Longrightarrow>
     a_debounceTimer (a_type_burst b s) = Some (300, last (a_query s # map snd b))
     \<and> a_invoked (a_type_burst b s) = a_invoked s"
proof (induction b arbitrary: s)
  case Nil
  then show ?case by simp
next
  case (Cons u b)
  obtain g t where u: "u = (g, t)" by (cases u)
  from Cons.prems u have g: "g < 300" and len: "2 \<le> length t"
    and new: "t \<noteq> a_query s" by auto
  let ?s1 = "a_setQuery t (a_elapse g s)"
  from a_elapse_early [OF Cons.prems(1) g]
  have e: "a_invoked (a_elapse g s) = a_invoked s" "a_query (a_elapse g s) = a_query s"
    by simp_all
  from a_setQuery_long [OF len, of "a_elapse g s"] new e
  have s1: "a_debounceTimer ?s1 = Some (300, t)" "a_invoked ?s1 = a_invoked s"
    "a_query ?s1 = t" by simp_all
  have "a_debounceTimer (a_type_burst b ?s1) = Some (300, last (a_query ?s1 # map snd b))
     \<and> a_invoked (a_type_burst b ?s1) = a_invoked ?s1"
  proof (rule Cons.IH)
    show "a_debounceTimer ?s1 = Some (300, a_query ?s1)" using s1 by simp
    show "\<forall>(gap, text) \<in> set b. gap < 300 \<and> 2 \<le> length text" using Cons.prems(2) by simp
    show "distinct_adj (a_query ?s1 # map snd b)" using Cons.prems(3) s1 u by simp
  qed
  with s1 u show ?case by simp
qed

lemma app_burst:
  assumes "b \<noteq> []" and "\<forall>(gap, text) \<in> set (tl b). gap < 300"
    and "\<forall>(gap, text) \<in> set b. 2 \<le> length text"
    and "distinct_adj (a_query s # map snd b)"
  shows "a_debounceTimer (a_type_burst b s) = Some (300, snd (last b))
     \<and> a_invoked (a_type_burst b s) = a_invoked (a_elapse (fst (hd b)) s)"
proof -
  from assms(1) obtain g t rest where b: "b = (g, t) # rest" by (cases b) auto
  let ?s1 = "a_setQuery t (a_elapse g s)"
  from assms b have len: "2 \<le> length t" and new: "t \<noteq> a_query (a_elapse g s)"
    by (auto simp: a_elapse_query)
  from a_setQuery_long [OF len new]
  have s1: "a_debounceTimer ?s1 = Some (300, t)" "a_invoked ?s1 = a_invoked (a_elapse g s)"
    "a_query ?s1 = t" by simp_all
  have p: "a_debounceTimer (a_type_burst rest ?s1)
       = Some (300, last (a_query ?s1 # map snd rest))
     \<and> a_invoked (a_type_burst rest ?s1) = a_invoked ?s1"
  proof (rule a_type_burst_pending)
    show "a_debounceTimer ?s1 = Some (300, a_query ?s1)" using s1 by simp
    show "\<forall>(gap, text) \<in> set rest. gap < 300 \<and> 2 \<le> length text" using assms b by auto
    show "distinct_adj (a_query ?s1 # map snd rest)" using assms b s1 by simp
  qed
  have "last (a_query ?s1 # map snd rest) = snd (last b)"
    using b s1 by (simp add: last_map)
  with p b s1 show ?thesis by simp
qed

lemma page_quiet:
  assumes "b \<noteq> []" and "\<forall>(gap, text) \<in> set (tl b). gap < 300"
    and "\<forall>(gap, text) \<in> set b. 2 \<le> length text"
    and "distinct_adj (query s # map snd b)" and "300 \<le> d" and "d' < 300"
  shows "invoked (type_burst b s) = invoked (elapse (fst (hd b)) s)
     \<and> debounceRef (type_burst b s) = Some (300, snd (last b))
     \<and> invoked (elapse d' (type_burst b s)) = invoked (elapse (fst (hd b)) s)
     \<and> invoked (elapse d (type_burst b s)) = invoked (elapse (fst (hd b)) s) @ [snd (last b)]"
proof -
  from page_burst [OF assms(1-4)]
  have tb: "debounceRef (type_burst b s) = Some (300, snd (last b))"
    "invoked (type_burst b s) = invoked (elapse (fst (hd b)) s)" by simp_all
  from elapse_early [OF tb(1) assms(6)] elapse_due [OF tb(1) assms(5)] tb
  show ?thesis by simp
qed

lemma app_quiet:
  assumes "b \<noteq> []" and "\<forall>(gap, text) \<in> set (tl b). gap < 300"
    and "\<forall>(gap, text) \<in> set b. 2 \<le> length text"
    and "distinct_adj (a_query s # map snd b)" and "300 \<le> d" and "d' < 300"
  shows "a_invoked (a_type_burst b s) = a_invoked (a_elapse (fst (hd b)) s)
     \<and> a_debounceTimer (a_type_burst b s) = Some (300, snd (last b))
     \<and> a_invoked (a_elapse d' (a_type_burst b s)) = a_invoked (a_elapse (fst (hd b)) s)
     \<and> a_invoked (a_elapse d (a_type_burst b s))
         = a_invoked (a_elapse (fst (hd b)) s) @ [snd (last b)]"
proof -
  from app_burst [OF assms(1-4)]
  have tb: "a_debounceTimer (a_type_burst b s) = Some (300, snd (last b))"
    "a_invoked (a_type_burst b s) = a_invoked (a_elapse (fst (hd b)) s)" by simp_all
  from a_elapse_early [OF tb(1) assms(6)] a_elapse_due [OF tb(1) assms(5)] tb
  show ?thesis by simp
qed

subsection \<open>The sample runs\<close>

lemma two_pending_state:
  "searches two_pending = [js ''Lon'', js ''London'']
   \<and> invoked two_pending = [js ''Lon'', js ''London'']
   \<and> query two_pending = js ''London'' \<and> debounceRef two_pending = None
   \<and> suggestions two_pending = []"
  by (simp add: two_pending_def page_defs js_def)

lemma a_two_pending_state:
  "a_requests a_two_pending = [js ''Lon'', js ''London'']"
  by (simp add: a_two_pending_def app_defs js_def)

lemma london_loading_state:
  "fetches london_loading = [(js ''51.5'', js ''-0.12'', js ''London, England'')]
   \<and> weather london_loading = Some sample_weather
   \<and> selectedCity london_loading = js ''Berlin, Germany''
   \<and> loading london_loading"
  by (simp add: london_loading_def berlin_shown_def page_defs berlin_def london_def)

lemma locating_state:
  "lookups locating = [(js ''39.8'', js ''-89.6'')] \<and> fetches locating = []"
  by (simp add: locating_def position_success_def handleUseMyLocation_def init_page_def)




subsection \<open>An idle pipeline\<close>







subsection \<open>Suggestion responses arriving out of order\<close>

text \<open>
  C1, as stated, fails. Two requests are pending in \<open>WeatherPage\<close>, the one for "Lon"
  issued before the one for "London". The response for "London" arrives first, the response
  for "Lon" after it: the list then shows the results for "Lon", the superseded request.
\<close>

theorem stale_response_counterexample:
  "invoked two_pending = [js ''Lon'', js ''London'']
   \<and> searches two_pending = [js ''Lon'', js ''London'']
   \<and> suggestions late_first = [long_eaton]
   \<and> suggestions late_first \<noteq> [london]
   \<and> dropdown late_first = [long_eaton]"
  by (simp add: late_first_def two_pending_def page_defs js_def dropdown_def london_def
      long_eaton_def)

text \<open>
  C1, amended. In both components every successful response replaces the suggestion list
  when it arrives, whichever pending request it answers; no response is dropped. Of two
  responses, the list ends up showing the one that arrived last.
\<close>

theorem last_response_wins:
  "(i < length (searches s) \<and> j < length (searches s) - 1 \<longrightarrow>
      suggestions (search_settles i (Response True (Some r1)) s) = r1
      \<and> suggestions (search_settles j (Response True (Some r2))
            (search_settles i (Response True (Some r1)) s)) = r2)
   \<and> (i' < length (a_requests a) \<and> j' < length (a_requests a) - 1 \<longrightarrow>
      a_suggestions (a_search_settles i' (Response ok1 (Some d1)) a) = d1
      \<and> a_suggestions (a_search_settles j' (Response ok2 (Some d2))
            (a_search_settles i' (Response ok1 (Some d1)) a)) = d2)"
  by (simp add: search_settles_def searchLocations_def checked_json_def a_search_settles_def
      unchecked_json_def remove_nth_def)

theorem last_response_wins_witness:
  "length (searches two_pending) = 2 \<and> length (a_requests a_two_pending) = 2
   \<and> suggestions (search_settles 0 (Response True (Some [long_eaton]))
         (search_settles 1 (Response True (Some [london])) two_pending)) = [long_eaton]
   \<and> a_suggestions (a_search_settles 0 (Response True (Some [bare_paris]))
         (a_search_settles 1 (Response True (Some [paris])) a_two_pending)) = [bare_paris]"
  using last_response_wins [of 1 two_pending 0 "[london]" "[long_eaton]" 1 a_two_pending 0
      True "[paris]" True "[bare_paris]"]
    two_pending_state a_two_pending_state
  by simp

subsection \<open>A failing forecast fetch\<close>

text \<open>
  C2. In \<open>WeatherPage\<close>, \<open>getWeather\<close> fails on a network error, on a non-success status
  and on a body that does not parse. When a pending forecast fetch fails, the error
  message is set and shown, the loading flag and indicator are cleared, and the weather
  state is not written: the weather section is absent if no snapshot was held, and
  otherwise shows the whole snapshot held before, under the city held before.
\<close>

theorem forecast_failure:
  "getWeather Rejected = Inl NetworkError
   \<and> getWeather (Response False body) = Inl BadStatus
   \<and> getWeather (Response True None) = Inl MalformedBody
   \<and> (i < length (fetches s) \<and> getWeather h = Inl e \<longrightarrow>
        error (weather_settles i h s) = js ''Failed to load weather data''
        \<and> error_banner (weather_settles i h s) = Some (js ''Failed to load weather data'')
        \<and> \<not> loading (weather_settles i h s)
        \<and> \<not> loading_indicator (weather_settles i h s)
        \<and> weather (weather_settles i h s) = weather s
        \<and> selectedCity (weather_settles i h s) = selectedCity s
        \<and> weather_section (weather_settles i h s) =
            (case weather s of
               None \<Rightarrow> None
             | Some w \<Rightarrow> Some (selectedCity s, getWeatherEmoji (weather_code (current w)), w)))"
  by (simp add: getWeather_def checked_json_def weather_settles_def error_banner_def truthy_def
      loading_indicator_def weather_section_def js_def split: option.splits)

theorem forecast_failure_witness:
  "0 < length (fetches london_loading)
   \<and> getWeather (Rejected :: int WeatherData http) = Inl NetworkError
   \<and> error_banner (weather_settles 0 Rejected london_loading)
       = Some (js ''Failed to load weather data'')
   \<and> \<not> loading (weather_settles 0 Rejected london_loading)
   \<and> weather_section (weather_settles 0 Rejected london_loading)
       = Some (js ''Berlin, Germany'', getWeatherEmoji 3, sample_weather)"
  using forecast_failure [of None 0 london_loading Rejected NetworkError]
    london_loading_state
  by (simp add: getWeather_def checked_json_def sample_weather_def)

subsection \<open>A failing suggestion request\<close>

text \<open>
  C3, as stated, fails in the draft \<open>WeatherAppWithSuggestions\<close>. Paris is listed, the
  refreshing request for "Pari" is pending and its fetch is rejected: the list still shows
  Paris.
\<close>

theorem resolver_failure_counterexample:
  "a_suggestions a_refreshing = [paris]
   \<and> a_requests a_refreshing = [js ''Pari'']
   \<and> unchecked_json (Rejected :: Location list http) = Inl NetworkError
   \<and> a_suggestions (a_search_settles 0 Rejected a_refreshing) = [paris]"
  by (simp add: a_refreshing_def a_listed_def app_defs js_def)

text \<open>
  C3, amended. In \<open>WeatherPage\<close> the resolver fails on a network error, on a non-success
  status and on a body that does not parse; every such failure sets the message
  "Location search failed", empties the suggestion list and leaves the query text, the
  weather snapshot and the weather section as they were. In the draft
  \<open>WeatherAppWithSuggestions\<close> a failure is only written to the console: the suggestion
  list, the query text and the weather snapshot stay as they were.
\<close>

theorem resolver_failure:
  "searchLocations Rejected = Inl NetworkError
   \<and> searchLocations (Response False body) = Inl BadStatus
   \<and> searchLocations (Response True None) = Inl MalformedBody
   \<and> (i < length (searches s) \<and> searchLocations h = Inl e \<longrightarrow>
        error (search_settles i h s) = js ''Location search failed''
        \<and> error_banner (search_settles i h s) = Some (js ''Location search failed'')
        \<and> suggestions (search_settles i h s) = []
        \<and> dropdown (search_settles i h s) = []
        \<and> query (search_settles i h s) = query s
        \<and> weather (search_settles i h s) = weather s
        \<and> weather_section (search_settles i h s) = weather_section s)
   \<and> (j < length (a_requests a) \<and> unchecked_json h' = Inl e' \<longrightarrow>
        a_suggestions (a_search_settles j h' a) = a_suggestions a
        \<and> a_console (a_search_settles j h' a) = a_console a @ [js ''Autocomplete failed'']
        \<and> a_query (a_search_settles j h' a) = a_query a
        \<and> a_weather (a_search_settles j h' a) = a_weather a)"
  by (simp add: search_settles_def searchLocations_def checked_json_def a_search_settles_def
      error_banner_def truthy_def dropdown_def weather_section_def js_def
      split: option.splits)

theorem resolver_failure_witness:
  "1 < length (searches two_pending)
   \<and> searchLocations (Response False (Some [london])) = Inl BadStatus
   \<and> suggestions (search_settles 1 (Response False (Some [london])) two_pending) = []
   \<and> query (search_settles 1 (Response False (Some [london])) two_pending) = js ''London''
   \<and> 0 < length (a_requests a_refreshing)
   \<and> a_console (a_search_settles 0 Rejected a_refreshing) = [js ''Autocomplete failed'']
   \<and> a_query (a_search_settles 0 Rejected a_refreshing) = js ''Pari''"
  using resolver_failure [of "Some [london]" 1 two_pending "Response False (Some [london])"
      BadStatus 0 a_refreshing Rejected NetworkError]
  by (simp add: two_pending_def a_refreshing_def a_listed_def page_defs app_defs js_def)

subsection \<open>Short queries\<close>




subsection \<open>Debounce\<close>

text \<open>
  Where the components coalesce: an update of at least 2 characters replaces whatever
  timeout is pending by its own, due in 300 ms. For every burst of such updates, each
  changing the text and each less than 300 ms after the one before, the burst itself
  invokes nothing beyond what was due before its first update, nothing is invoked while
  less than 300 ms have passed since its last update, and once 300 ms have passed exactly
  one invocation has been added, carrying the text of the last update.
\<close>

lemma long_burst_coalesces:
  "(2 \<le> length q \<and> q \<noteq> query s0 \<longrightarrow> debounceRef (setQuery q s0) = Some (300, q))
   \<and> (2 \<le> length q \<and> q \<noteq> a_query a0 \<longrightarrow> a_debounceTimer (a_setQuery q a0) = Some (300, q))
   \<and> (b \<noteq> [] \<and> (\<forall>(gap, text) \<in> set (tl b). gap < 300)
        \<and> (\<forall>(gap, text) \<in> set b. 2 \<le> length text) \<and> 300 \<le> d \<and> d' < 300 \<longrightarrow>
        (distinct_adj (query s # map snd b) \<longrightarrow>
           invoked (type_burst b s) = invoked (elapse (fst (hd b)) s)
           \<and> debounceRef (type_burst b s) = Some (300, snd (last b))
           \<and> invoked (elapse d' (type_burst b s)) = invoked (elapse (fst (hd b)) s)
           \<and> invoked (elapse d (type_burst b s))
               = invoked (elapse (fst (hd b)) s) @ [snd (last b)])
        \<and> (distinct_adj (a_query a # map snd b) \<longrightarrow>
           a_invoked (a_type_burst b a) = a_invoked (a_elapse (fst (hd b)) a)
           \<and> a_debounceTimer (a_type_burst b a) = Some (300, snd (last b))
           \<and> a_invoked (a_elapse d' (a_type_burst b a)) = a_invoked (a_elapse (fst (hd b)) a)
           \<and> a_invoked (a_elapse d (a_type_burst b a))
               = a_invoked (a_elapse (fst (hd b)) a) @ [snd (last b)]))"
  using page_quiet [of b s d d'] app_quiet [of b a d d'] setQuery_long [of q s0]
    a_setQuery_long [of q a0]
  by blast

lemma long_burst_example:
  "invoked (elapse 300 (type_burst berli_burst (init_page :: int page))) = [js ''Berli'']
   \<and> invoked (elapse 299 (type_burst berli_burst (init_page :: int page))) = []
   \<and> a_invoked (a_elapse 300 (a_type_burst berli_burst (init_app :: unit app))) = [js ''Berli'']"
  using long_burst_coalesces [of "js ''Be''" "init_page :: int page" "init_app :: unit app"
      berli_burst 300 299 "init_page :: int page" "init_app :: unit app"]
  by (simp add: berli_burst_def js_def page_defs app_defs)

text \<open>Typed key by key, "Berl" gives one invocation, with the text of the last key.\<close>

lemma berl_keys_example:
  "invoked (elapse 300 (type_burst berl_keys (init_page :: int page))) = [js ''Berl'']
   \<and> a_invoked (a_elapse 300 (a_type_burst berl_keys (init_app :: unit app))) = [js ''Berl'']"
  by (simp add: berl_keys_def js_def page_defs app_defs)

text \<open>
  C5 is not met by the code. "Lo" is typed and 50 ms later cut back to "L". The update
  to "L" takes the short-query branch of the effect, which returns before
  \<open>clearTimeout\<close>: the timeout scheduled for "Lo" is not cancelled, it still has 250 ms
  to run, and when they have passed the resolver is invoked with "Lo" while the input
  holds "L". An update of 2 or more characters at the same moment does replace that
  timeout. Both components behave so.
\<close>

theorem short_update_keeps_timeout:
  "debounceRef (type_burst lo_then_l (init_page :: int page)) = Some (250, js ''Lo'')
   \<and> query (type_burst lo_then_l (init_page :: int page)) = js ''L''
   \<and> invoked (elapse 250 (type_burst lo_then_l (init_page :: int page))) = [js ''Lo'']
   \<and> debounceRef (type_burst [(0, js ''Lo''), (50, js ''Lon'')] (init_page :: int page))
       = Some (300, js ''Lon'')
   \<and> a_debounceTimer (a_type_burst lo_then_l (init_app :: unit app)) = Some (250, js ''Lo'')
   \<and> a_query (a_type_burst lo_then_l (init_app :: unit app)) = js ''L''
   \<and> a_invoked (a_elapse 250 (a_type_burst lo_then_l (init_app :: unit app))) = [js ''Lo'']
   \<and> a_debounceTimer (a_type_burst [(0, js ''Lo''), (50, js ''Lon'')] (init_app :: unit app))
       = Some (300, js ''Lon'')"
  by (simp add: lo_then_l_def js_def page_defs app_defs)

subsection \<open>Display labels\<close>

text \<open>
  C6, as stated, fails. For a location without any structured address field
  \<open>formatDisplayName\<close> yields the empty string, not the provider's \<open>display_name\<close>.
\<close>

theorem formatDisplayName_counterexample:
  "display_name bare_paris = js ''Paris, France''
   \<and> formatDisplayName bare_paris = []
   \<and> formatDisplayName bare_paris \<noteq> display_name bare_paris"
  by (simp add: formatDisplayName_def bare_paris_def present_def js_def)

text \<open>
  C6, amended. \<open>formatDisplayName\<close> joins with ", " the first present one of city, town
  and village, then the state, then the country, each only when present and not empty;
  with no such field the label is empty, and \<open>display_name\<close> is never used. The Paris
  suggestion formats back to its \<open>display_name\<close>.
\<close>

theorem formatDisplayName_label:
  "formatDisplayName loc =
     join_js (js '', '')
       (map the (filter present
          [if present (city (address loc)) then city (address loc)
           else if present (town (address loc)) then town (address loc)
           else village (address loc),
           state (address loc), country (address loc)]))
   \<and> (\<not> present (city (address loc)) \<and> \<not> present (town (address loc))
        \<and> \<not> present (village (address loc)) \<and> \<not> present (state (address loc))
        \<and> \<not> present (country (address loc)) \<longrightarrow> formatDisplayName loc = [])
   \<and> formatDisplayName (loc\<lparr>display_name := d\<rparr>) = formatDisplayName loc
   \<and> formatDisplayName paris = display_name paris"
  by (simp add: formatDisplayName_def Let_def paris_def present_def truthy_def js_def)

theorem formatDisplayName_label_witness:
  "\<not> present (city (address bare_paris)) \<and> \<not> present (town (address bare_paris))
   \<and> \<not> present (village (address bare_paris)) \<and> \<not> present (state (address bare_paris))
   \<and> \<not> present (country (address bare_paris))
   \<and> formatDisplayName bare_paris = []
   \<and> formatDisplayName paris = js ''Paris, '' @ [0xCE] @ js ''le-de-France, France''"
  using formatDisplayName_label [of bare_paris "[]"]
  by (simp add: bare_paris_def paris_def present_def)

subsection \<open>The current-position path\<close>

text \<open>
  C7, as stated, fails. The reverse lookup answers with "Springfield, Illinois, USA" and
  no city, town or village: \<open>WeatherPage\<close> puts the placeholder into the input, not the
  first comma-delimited segment, and hands the whole \<open>display_name\<close> to the forecast
  fetch as its label, not the chosen name.
\<close>

theorem use_my_location_counterexample:
  "lookups locating = [(js ''39.8'', js ''-89.6'')]
   \<and> hd (split_js comma (display_name springfield)) = js ''Springfield''
   \<and> query (reverse_settles 0 (Response True (Some springfield)) locating) = js ''Your Location''
   \<and> fetches (reverse_settles 0 (Response True (Some springfield)) locating)
       = [(js ''39.8'', js ''-89.6'', js ''Springfield, Illinois, USA'')]"
  by (simp add: locating_def position_success_def handleUseMyLocation_def init_page_def
      reverse_settles_def reverseGeocode_def checked_json_def springfield_def location_name_def
      or_else_def or_js_def truthy_def setQuery_def search_effect_def fetchWeatherData_def
      remove_nth_def js_def comma_def)

text \<open>
  C7, amended. When the reverse lookup of \<open>WeatherPage\<close> succeeds, the name put into the
  input is the city, else the town, else the village (each when present and not empty),
  else the placeholder "Your Location"; the forecast fetch is started with the obtained
  coordinate pair and the whole \<open>display_name\<close> as its label.
\<close>

theorem use_my_location:
  "(i < length (lookups s) \<and> reverseGeocode h = Inr data \<longrightarrow>
      query (reverse_settles i h s) = location_name data
      \<and> fetches (reverse_settles i h s)
          = fetches s @ [(fst (lookups s ! i), snd (lookups s ! i), display_name data)]
      \<and> loading (reverse_settles i h s)
      \<and> \<not> geoLoading (reverse_settles i h s))
   \<and> (address_opt data = Some ad \<longrightarrow>
        (present (city ad) \<longrightarrow> location_name data = the (city ad))
        \<and> (\<not> present (city ad) \<and> present (town ad) \<longrightarrow> location_name data = the (town ad))
        \<and> (\<not> present (city ad) \<and> \<not> present (town ad) \<and> present (village ad) \<longrightarrow>
              location_name data = the (village ad))
        \<and> (\<not> present (city ad) \<and> \<not> present (town ad) \<and> \<not> present (village ad) \<longrightarrow>
              location_name data = js ''Your Location''))
   \<and> (address_opt data = None \<longrightarrow> location_name data = js ''Your Location'')"
  by (auto simp add: reverse_settles_def fetchWeatherData_def setQuery_def search_effect_def
      location_name_def or_else_def or_js_def present_def split: option.splits)

theorem use_my_location_witness:
  "0 < length (lookups locating)
   \<and> reverseGeocode (Response True (Some springfield)) = Inr springfield
   \<and> query (reverse_settles 0 (Response True (Some springfield)) locating) = js ''Your Location''
   \<and> fetches (reverse_settles 0 (Response True (Some springfield)) locating)
       = [(js ''39.8'', js ''-89.6'', display_name springfield)]
   \<and> query (reverse_settles 0 (Response True (Some mitte)) locating) = js ''Berlin''"
  using use_my_location [of 0 locating "Response True (Some springfield)" springfield
      "\<lparr>city = None, town = None, village = None, state = Some (js ''Illinois''),
        country = Some (js ''USA'')\<rparr>"]
    use_my_location [of 0 locating "Response True (Some mitte)" mitte
      "\<lparr>city = Some (js ''Berlin''), town = Some (js ''Mitte''), village = None,
        state = None, country = Some (js ''Germany'')\<rparr>"]
    locating_state
  by (simp add: reverseGeocode_def checked_json_def springfield_def mitte_def present_def
      truthy_def js_def)

subsection \<open>Weather-code classifier\<close>

text \<open>
  C8. The weather-code classifier is total and deterministic on the integers: every code
  yields a non-empty glyph, equal codes yield equal glyphs, and every code outside the
  lookup table yields the default glyph (sun behind small cloud). This holds for
  \<open>getWeatherEmoji\<close> and for \<open>getWeatherIcon\<close>.
\<close>

theorem classifier_total:
  "getWeatherEmoji code \<noteq> [] \<and> getWeatherIcon code \<noteq> []
   \<and> (code = code' \<longrightarrow> getWeatherEmoji code = getWeatherEmoji code'
         \<and> getWeatherIcon code = getWeatherIcon code')
   \<and> (code \<notin> known_codes \<longrightarrow> getWeatherEmoji code = [0xD83C, 0xDF24, 0xFE0F]
         \<and> getWeatherIcon code = [0xD83C, 0xDF24, 0xFE0F])"
  by (simp add: getWeatherEmoji_def getWeatherIcon_def emoji_map_def icon_map_def
      or_else_def truthy_def known_codes_def)

theorem classifier_total_witness:
  "(1000::int) \<notin> known_codes \<and> getWeatherEmoji 1000 = [0xD83C, 0xDF24, 0xFE0F]
   \<and> getWeatherIcon 1000 = [0xD83C, 0xDF24, 0xFE0F]
   \<and> getWeatherEmoji 1000 = getWeatherEmoji 1000"
  using classifier_total [of 1000 1000] by (simp add: known_codes_def)

subsection \<open>The render guard of the weather section\<close>

text \<open>
  C9. In \<open>WeatherPage\<close>, whenever the loading flag is set the weather section is not
  rendered, so the loading indicator and a weather section never show together; a
  selection keeps the snapshot held in state, shows the indicator and hides the section.
\<close>

theorem loading_hides_weather:
  "(loading s \<longrightarrow> weather_section s = None)
   \<and> \<not> (loading_indicator s \<and> weather_section s \<noteq> None)
   \<and> weather (handleSelect loc s) = weather s
   \<and> loading_indicator (handleSelect loc s)
   \<and> weather_section (handleSelect loc s) = None"
  by (simp add: weather_section_def loading_indicator_def handleSelect_def fetchWeatherData_def
      setQuery_def search_effect_def split: option.splits)

theorem loading_hides_weather_witness:
  "loading london_loading \<and> weather london_loading = Some sample_weather
   \<and> weather_section london_loading = None"
  using loading_hides_weather [of london_loading london] london_loading_state
  by simp

subsection \<open>Selecting a suggestion\<close>




end
